theory Spec2Isabelle
  imports Complex_Main "HOL-Library.AList" "HOL-Library.Char_ord" "HOL-Library.List_Lexorder" "HOL-Library.Multiset"
begin


section \<open>Python values and errors\<close>

text \<open>
  The program is \<^verbatim>\<open>code/preprocess.py\<close>. Every exception the modelled code can raise is
  a value of \<open>py_error\<close>; a computation that may raise returns \<open>py_error + 'a\<close>, with
  \<open>Inl\<close> for the exception. Nothing in the source catches an exception, so an \<open>Inl\<close>
  travels up to \<open>main\<close> unchanged.
\<close>

datatype py_error =
    IndexError
  | ValueError
  | RuntimeError
  | UnboundLocalError
  | NotADirectoryError
  | IsADirectoryError
  | UnidentifiedImageError
  | EncoderError

text \<open>Sequential evaluation of a list comprehension: the first exception ends it.\<close>

fun traverse :: "('a \<Rightarrow> py_error + 'b) \<Rightarrow> 'a list \<Rightarrow> py_error + 'b list" where
  "traverse f [] = Inr []"
| "traverse f (x # xs) =
     (case f x of
        Inl e \<Rightarrow> Inl e
      | Inr y \<Rightarrow> (case traverse f xs of Inl e \<Rightarrow> Inl e | Inr ys \<Rightarrow> Inr (y # ys)))"

text \<open>\<^verbatim>\<open>xs[i]\<close>: a negative index counts from the end, an index out of range raises.\<close>

definition getitem :: "'a list \<Rightarrow> int \<Rightarrow> py_error + 'a" where
  "getitem xs i =
     (if 0 \<le> i \<and> i < int (length xs) then Inr (xs ! nat i)
      else if i < 0 \<and> - int (length xs) \<le> i then Inr (xs ! nat (int (length xs) + i))
      else Inl IndexError)"

text \<open>\<^verbatim>\<open>int(x)\<close> of a float truncates towards zero.\<close>

definition py_int :: "rat \<Rightarrow> int" where
  "py_int x = (if 0 \<le> x then \<lfloor>x\<rfloor> else \<lceil>x\<rceil>)"

section \<open>Frame sampler\<close>

text \<open>
  \<^verbatim>\<open>np.linspace(start, stop, num)\<close> (endpoint included), following numpy's own steps:
  \<^verbatim>\<open>y = arange(0, num)\<close>, then \<^verbatim>\<open>y * step\<close> with \<^verbatim>\<open>step = delta / div\<close> when
  \<^verbatim>\<open>div = num - 1\<close> is positive (\<^verbatim>\<open>y / div * delta\<close> when the step is zero),
  \<^verbatim>\<open>y * delta\<close> otherwise, then \<^verbatim>\<open>y + start\<close>, and the last entry set to \<^verbatim>\<open>stop\<close>
  when \<^verbatim>\<open>num > 1\<close>. A negative \<^verbatim>\<open>num\<close> raises ValueError. The float64 arithmetic of
  numpy is taken as exact arithmetic on rationals.
\<close>

definition linspace :: "rat \<Rightarrow> rat \<Rightarrow> int \<Rightarrow> py_error + rat list" where
  "linspace start stop num =
     (if num < 0 then Inl ValueError
      else
        let dv = num - 1;
            delta = stop - start;
            y = map rat_of_nat [0..<nat num];
            y = (if 0 < dv then
                   (let step = delta / rat_of_int dv
                    in if step = 0 then map (\<lambda>v. v / rat_of_int dv * delta) y
                       else map (\<lambda>v. v * step) y)
                 else map (\<lambda>v. v * delta) y);
            y = map (\<lambda>v. v + start) y
        in Inr (if 1 < num then y[nat num - 1 := stop] else y))"

text \<open>\<^verbatim>\<open>np.round\<close>: to the nearest integer, a tie to the even neighbour.\<close>

definition np_round :: "rat \<Rightarrow> rat" where
  "np_round x =
     (let f = \<lfloor>x\<rfloor>; d = x - rat_of_int f
      in rat_of_int
           (if d < 1 / 2 then f
            else if 1 / 2 < d then f + 1
            else if even f then f else f + 1))"

text \<open>
  Lines 64-65 of \<^verbatim>\<open>extract_image_feats\<close>:
  \<^verbatim>\<open>samples = np.round(np.linspace(0, len(image_list) - 1, opt['n_frame_steps']))\<close>.
\<close>

definition frame_samples :: "nat \<Rightarrow> int \<Rightarrow> py_error + rat list" where
  "frame_samples len n_frame_steps =
     (case linspace 0 (rat_of_int (int len - 1)) n_frame_steps of
        Inl e \<Rightarrow> Inl e
      | Inr positions \<Rightarrow> Inr (map np_round positions))"

text \<open>Line 66: \<^verbatim>\<open>image_list = [image_list[int(sample)] for sample in samples]\<close>.\<close>

definition select_frames :: "'a list \<Rightarrow> rat list \<Rightarrow> py_error + 'a list" where
  "select_frames image_list samples =
     traverse (\<lambda>sample. getitem image_list (py_int sample)) samples"

definition sample_image_list :: "'a list \<Rightarrow> int \<Rightarrow> py_error + 'a list" where
  "sample_image_list image_list n_frame_steps =
     (case frame_samples (length image_list) n_frame_steps of
        Inl e \<Rightarrow> Inl e
      | Inr samples \<Rightarrow> select_frames image_list samples)"

section \<open>Strings, paths and file names\<close>

text \<open>
  \<^verbatim>\<open>s.split(sep)\<close> for a one-character separator. The result is never the empty list,
  so the first case of the inner \<open>case\<close> is never taken.
\<close>

fun split :: "char \<Rightarrow> string \<Rightarrow> string list" where
  "split sep [] = [[]]"
| "split sep (c # cs) =
     (if c = sep then [] # split sep cs
      else (case split sep cs of [] \<Rightarrow> [[c]] | piece # pieces \<Rightarrow> (c # piece) # pieces))"

text \<open>
  Lines 57, 104 and 127: \<^verbatim>\<open>video_id = video.split("/")[-1].split(".")[0]\<close>. Both lists
  are non-empty, so neither index raises.
\<close>

definition video_id :: "string \<Rightarrow> string" where
  "video_id video = hd (split CHR ''.'' (last (split CHR ''/'' video)))"

definition endswith :: "string \<Rightarrow> string \<Rightarrow> bool" where
  "endswith s ext = (length ext \<le> length s \<and> drop (length s - length ext) s = ext)"

text \<open>A hidden name starts with a dot; \<^verbatim>\<open>glob\<close>'s \<^verbatim>\<open>*\<close> does not match it.\<close>

definition hidden :: "string \<Rightarrow> bool" where
  "hidden name = (case name of [] \<Rightarrow> False | c # _ \<Rightarrow> c = CHR ''.'')"

text \<open>Decimal numerals, and ffmpeg's \<^verbatim>\<open>%02d\<close> and \<^verbatim>\<open>%06d\<close> in an output pattern.\<close>

fun decimal :: "nat \<Rightarrow> string" where
  "decimal n =
     (if n < 10 then [''0123456789'' ! n]
      else decimal (n div 10) @ [''0123456789'' ! (n mod 10)])"

declare decimal.simps [simp del]

definition zero_padded :: "nat \<Rightarrow> nat \<Rightarrow> string" where
  "zero_padded w n = replicate (w - length (decimal n)) CHR ''0'' @ decimal n"



section \<open>Arrays and the audio segmenter\<close>

text \<open>
  A two-dimensional numpy array with its shape kept beside its rows, so that an array
  with an empty axis still has a shape. The element type is left open: the arrays hold
  what the MFCC transform and the encoder return.
\<close>

datatype 'c array2 = Array2 (dim0: nat) (dim1: nat) (cells: "'c list list")


text \<open>\<^verbatim>\<open>np.zeros((r, 0))\<close>, as on line 136.\<close>

definition zeros_r0 :: "nat \<Rightarrow> 'c array2" where
  "zeros_r0 r = Array2 r 0 (replicate r [])"

text \<open>
  \<^verbatim>\<open>np.concatenate((a, b), axis=1)\<close> of line 148: the arrays must agree on the first
  axis, else numpy raises ValueError.
\<close>

definition concatenate_axis1 :: "'c array2 \<Rightarrow> 'c array2 \<Rightarrow> py_error + 'c array2" where
  "concatenate_axis1 a b =
     (if dim0 a = dim0 b
      then Inr (Array2 (dim0 a) (dim1 a + dim1 b) (map2 (@) (cells a) (cells b)))
      else Inl ValueError)"

text \<open>\<^verbatim>\<open>a.T\<close> of line 151.\<close>

definition transpose_T :: "'c array2 \<Rightarrow> 'c array2" where
  "transpose_T a =
     Array2 (dim1 a) (dim0 a) (map (\<lambda>j. map (\<lambda>row. row ! j) (cells a)) [0..<dim1 a])"

text \<open>
  What \<^verbatim>\<open>wavfile.read\<close> returns for a wav file: the sample rate and the samples. The
  model covers mono audio (\<^verbatim>\<open>output_channels = 1\<close>, the default), where the samples are
  a one-dimensional array.
\<close>

datatype wav = WavData (wav_rate: nat) (wav_data: "int list")

text \<open>
  Lines 140-144: the segment is padded with zeros at its tail, or cut, to 16000 samples.
  The number 16000 is written in the source; it is not read from the sample rate.
\<close>

definition pad_or_truncate :: "int list \<Rightarrow> int list" where
  "pad_or_truncate audio_info =
     (let audio_length = length audio_info
      in if audio_length \<le> 16000
         then audio_info @ replicate (16000 - audio_length) 0
         else take 16000 audio_info)"

text \<open>
  Lines 139-146 for one segment: \<^verbatim>\<open>mfcc(audio_info, sr=sample_rate)\<close>. The transform
  \<open>mfcc_fn\<close> is librosa's, a parameter here; \<^verbatim>\<open>astype(np.float32)\<close> keeps the values.
\<close>

definition segment_mfcc :: "(int list \<Rightarrow> nat \<Rightarrow> 'c array2) \<Rightarrow> wav \<Rightarrow> 'c array2" where
  "segment_mfcc mfcc_fn w = mfcc_fn (pad_or_truncate (wav_data w)) (wav_rate w)"

section \<open>The output directory\<close>

text \<open>
  A directory is the list of its entries, a name with what it holds. A frame file holds
  a decoded frame (of an open type \<open>'f\<close>), a wav file its audio, an npy file a saved
  array. The state of a run is the content of \<^verbatim>\<open>opt['output_dir']\<close> and the lines
  printed so far. \<open>main\<close> creates the output directory before anything else (lines
  178-179), so the model starts with it present; the video directory is read only and
  lies outside the output directory.
\<close>

datatype ('f, 'c) node =
    Jpg 'f
  | Wav wav
  | Npy "'c array2"
  | Dir "(string \<times> ('f, 'c) node) list"

type_synonym ('f, 'c) dir = "(string \<times> ('f, 'c) node) list"

record ('f, 'c) state =
  out :: "('f, 'c) dir"
  stdout :: "string list"

type_synonym ('f, 'c) outcome = "py_error option \<times> ('f, 'c) state"

definition print :: "string \<Rightarrow> ('f, 'c) state \<Rightarrow> ('f, 'c) state" where
  "print line st = st\<lparr>stdout := stdout st @ [line]\<rparr>"

text \<open>
  \<^verbatim>\<open>os.listdir\<close> returns the names in an order of the file system's choosing. The model
  orders them by a rank on names that the environment gives (as a hashed directory
  does), so every order of a directory's names is possible and none is assumed.
\<close>

definition os_listdir :: "(string \<Rightarrow> nat) \<Rightarrow> string list \<Rightarrow> string list" where
  "os_listdir rank names = sort_key rank names"

text \<open>
  \<^verbatim>\<open>glob.glob(os.path.join(d, '*' + ext))\<close>: the names of \<open>d\<close> that end with \<open>ext\<close> and
  are not hidden, in the order of the directory listing.
\<close>

definition glob_ext :: "(string \<Rightarrow> nat) \<Rightarrow> string \<Rightarrow> string list \<Rightarrow> string list" where
  "glob_ext rank ext names =
     filter (\<lambda>name. endswith name ext \<and> \<not> hidden name) (os_listdir rank names)"

text \<open>
  A destination \<^verbatim>\<open>dst = output_dir + '/' + video_id\<close> is named by its \<open>video_id\<close>, which
  holds neither a slash nor a dot. With an empty \<open>video_id\<close> the path is the output
  directory itself.
\<close>

definition path_exists :: "('f, 'c) dir \<Rightarrow> string \<Rightarrow> bool" where
  "path_exists outd name = (name = [] \<or> map_of outd name \<noteq> None)"

definition lookup_dir :: "('f, 'c) dir \<Rightarrow> string \<Rightarrow> ('f, 'c) dir option" where
  "lookup_dir outd name =
     (if name = [] then Some outd
      else case map_of outd name of Some (Dir d) \<Rightarrow> Some d | _ \<Rightarrow> None)"

definition store_dir :: "('f, 'c) dir \<Rightarrow> string \<Rightarrow> ('f, 'c) dir \<Rightarrow> ('f, 'c) dir" where
  "store_dir outd name d = (if name = [] then d else AList.update name (Dir d) outd)"

text \<open>\<^verbatim>\<open>np.save(os.path.join(dst, name), arr)\<close>: a directory of that name is in the way.\<close>

definition np_save :: "string \<Rightarrow> 'c array2 \<Rightarrow> ('f, 'c) dir \<Rightarrow> py_error + ('f, 'c) dir" where
  "np_save name arr d =
     (case map_of d name of
        Some (Dir _) \<Rightarrow> Inl IsADirectoryError
      | _ \<Rightarrow> Inr (AList.update name (Npy arr) d))"

text \<open>
  Lines 77-79, 152-154 and 185-187:
  \<^verbatim>\<open>for file in os.listdir(dst): if file.endswith(ext): os.remove(os.path.join(dst, file))\<close>.
  The names were listed from the same directory, so each file is there when it is
  removed; \<^verbatim>\<open>os.remove\<close> of a directory raises.
\<close>

fun remove_files :: "string \<Rightarrow> string list \<Rightarrow> ('f, 'c) dir \<Rightarrow> py_error option \<times> ('f, 'c) dir" where
  "remove_files ext [] d = (None, d)"
| "remove_files ext (file # files) d =
     (if endswith file ext then
        (case map_of d file of
           Some (Dir _) \<Rightarrow> (Some IsADirectoryError, d)
         | _ \<Rightarrow> remove_files ext files (AList.delete file d))
      else remove_files ext files d)"

definition remove_ending :: "(string \<Rightarrow> nat) \<Rightarrow> string \<Rightarrow> ('f, 'c) dir \<Rightarrow> py_error option \<times> ('f, 'c) dir" where
  "remove_ending rank ext d = remove_files ext (os_listdir rank (map fst d)) d"

text \<open>A \<^verbatim>\<open>for\<close> loop over a list with a body that may raise: the first exception ends it.\<close>

fun for_each :: "('a \<Rightarrow> 's \<Rightarrow> py_error option \<times> 's) \<Rightarrow> 'a list \<Rightarrow> 's \<Rightarrow> py_error option \<times> 's" where
  "for_each body [] st = (None, st)"
| "for_each body (x # xs) st =
     (case body x st of
        (Some e, st') \<Rightarrow> (Some e, st')
      | (None, st') \<Rightarrow> for_each body xs st')"

section \<open>Configuration and external collaborators\<close>

text \<open>The option dictionary that \<open>main\<close> builds from the command line (lines 158-176).\<close>

record opt =
  video_dir :: string
  output_dir :: string
  output_channels :: int
  output_frequency :: int
  band_width :: int
  model :: string
  gpu :: string
  n_frame_steps :: int

text \<open>The encoders \<open>main\<close> knows (lines 190-201), and the input size each one's image
  loader produces (\<^verbatim>\<open>utils.LoadTransformImage(model)\<close> crops to \<^verbatim>\<open>model.input_size\<close>, the
  sizes \<open>main\<close> writes down beside each model).\<close>

datatype encoder_model = Resnet152 | InceptionV3 | Vgg16

fun input_size :: "encoder_model \<Rightarrow> nat list" where
  "input_size Resnet152 = [3, 224, 224]"
| "input_size InceptionV3 = [3, 299, 299]"
| "input_size Vgg16 = [3, 224, 224]"

text \<open>
  A torch tensor of images: its shape, and the frames whose pixels fill it in storage
  order (\<open>None\<close> where it still holds the zeros it was made with). A loaded image: its
  shape and the frame it was loaded from.
\<close>

datatype 'f tensor = Tensor (shape: "nat list") (payload: "'f option list")

datatype 'f image = Image (ishape: "nat list") (pixels: 'f)

text \<open>
  What the program does not compute itself:
  \<^item> \<open>listdir_rank\<close>: the order of directory listings;
  \<^item> \<open>video_files\<close>: the names in \<^verbatim>\<open>opt['video_dir']\<close>;
  \<^item> \<open>ffmpeg_frames\<close>: the frames ffmpeg decodes from the file at a path, in temporal
    order (none when it fails);
  \<^item> \<open>ffmpeg_audio\<close>: the audio ffmpeg converts from the file at a path with the given
    bit rate, channels and frequency (\<open>None\<close> when there is no audio stream or it fails);
  \<^item> \<open>ffmpeg_segment\<close>: the one-second segments ffmpeg cuts a wav file into, in temporal
    order;
  \<^item> \<open>mfcc\<close>: librosa's transform of a waveform at a sample rate;
  \<^item> \<open>encoder\<close>: the pretrained model's forward pass on a tensor, which may raise.
\<close>

record ('f, 'c) env =
  listdir_rank :: "string \<Rightarrow> nat"
  video_files :: "string list"
  ffmpeg_frames :: "string \<Rightarrow> 'f list"
  ffmpeg_audio :: "string \<Rightarrow> int \<Rightarrow> int \<Rightarrow> int \<Rightarrow> wav option"
  ffmpeg_segment :: "wav \<Rightarrow> wav list"
  mfcc :: "int list \<Rightarrow> nat \<Rightarrow> 'c array2"
  encoder :: "encoder_model \<Rightarrow> 'f tensor \<Rightarrow> py_error + 'c array2"

section \<open>vToA\<close>

text \<open>
  Lines 98-108. The output directory is emptied, then ffmpeg converts every file of the
  video directory to \<^verbatim>\<open>output_dir/video_id.wav\<close>. ffmpeg's exit status is ignored: a
  file without audio leaves nothing. ffmpeg runs without \<^verbatim>\<open>-y\<close> and its question goes
  to the null device, so a wav file that is already there stays as it is.
\<close>

definition vToA_video :: "('f, 'c) env \<Rightarrow> opt \<Rightarrow> string \<Rightarrow> ('f, 'c) state \<Rightarrow> ('f, 'c) state" where
  "vToA_video env opt name st =
     (let video = video_dir opt @ ''/'' @ name;
          target = video_id video @ ''.wav''
      in case ffmpeg_audio env video (band_width opt) (output_channels opt) (output_frequency opt) of
           None \<Rightarrow> st
         | Some w \<Rightarrow>
             (case map_of (out st) target of
                None \<Rightarrow> st\<lparr>out := AList.update target (Wav w) (out st)\<rparr>
              | Some _ \<Rightarrow> st))"

definition vToA :: "('f, 'c) env \<Rightarrow> opt \<Rightarrow> ('f, 'c) state \<Rightarrow> ('f, 'c) state" where
  "vToA env opt st =
     (let dst = output_dir opt;
          st = print ('' cleanup: '' @ dst @ ''/'') st;
          st = st\<lparr>out := []\<rparr>
      in fold (vToA_video env opt) (os_listdir (listdir_rank env) (video_files env)) st)"

section \<open>split\_audio\<close>

text \<open>The segment files ffmpeg writes into the fresh \<^verbatim>\<open>dst\<close>: \<^verbatim>\<open>00.wav\<close>, \<^verbatim>\<open>01.wav\<close>, ...\<close>

definition write_segments :: "wav list \<Rightarrow> ('f, 'c) dir" where
  "write_segments segs =
     map (\<lambda>(k, w). (zero_padded 2 k @ ''.wav'', Wav w)) (enumerate 0 segs)"

text \<open>
  Lines 137-148: the loop over \<^verbatim>\<open>os.listdir(dst)\<close>. \<^verbatim>\<open>wavfile.read\<close> raises ValueError on
  what is not a wav file.
\<close>

fun mfcc_loop ::
  "(int list \<Rightarrow> nat \<Rightarrow> 'c array2) \<Rightarrow> ('f, 'c) dir \<Rightarrow> 'c array2 \<Rightarrow> string list \<Rightarrow> py_error + 'c array2"
where
  "mfcc_loop mfcc_fn d output [] = Inr output"
| "mfcc_loop mfcc_fn d output (segment # segments) =
     (case map_of d segment of
        Some (Wav w) \<Rightarrow>
          (case concatenate_axis1 output (segment_mfcc mfcc_fn w) of
             Inl e \<Rightarrow> Inl e
           | Inr output' \<Rightarrow> mfcc_loop mfcc_fn d output' segments)
      | _ \<Rightarrow> Inl ValueError)"

text \<open>Lines 136-151: the array that \<^verbatim>\<open>np.save\<close> writes to \<^verbatim>\<open>audio.npy\<close>.\<close>

definition audio_features ::
  "(int list \<Rightarrow> nat \<Rightarrow> 'c array2) \<Rightarrow> (string \<Rightarrow> nat) \<Rightarrow> ('f, 'c) dir \<Rightarrow> py_error + 'c array2"
where
  "audio_features mfcc_fn rank d =
     (case mfcc_loop mfcc_fn d (zeros_r0 20) (os_listdir rank (map fst d)) of
        Inl e \<Rightarrow> Inl e
      | Inr output \<Rightarrow> Inr (transpose_T output))"

text \<open>
  Lines 136-154 on the directory \<^verbatim>\<open>dst\<close>: features, \<^verbatim>\<open>audio.npy\<close>, then the removal of
  the segment files. An exception leaves the directory as it was at that moment.
\<close>

definition split_audio_dst ::
  "(int list \<Rightarrow> nat \<Rightarrow> 'c array2) \<Rightarrow> (string \<Rightarrow> nat) \<Rightarrow> ('f, 'c) dir \<Rightarrow> py_error option \<times> ('f, 'c) dir"
where
  "split_audio_dst mfcc_fn rank d =
     (case audio_features mfcc_fn rank d of
        Inl e \<Rightarrow> (Some e, d)
      | Inr feats \<Rightarrow>
          (case np_save ''audio.npy'' feats d of
             Inl e \<Rightarrow> (Some e, d)
           | Inr d' \<Rightarrow> remove_ending rank ''.wav'' d'))"

text \<open>
  Lines 129-154 once the destination can be made afresh: after \<^verbatim>\<open>shutil.rmtree\<close> and
  \<^verbatim>\<open>os.mkdir\<close> it is an empty directory. ffmpeg then cuts the entry \<open>name\<close>, if it
  still is a wav file, into segment files there.
\<close>

definition split_audio_fresh ::
  "('f, 'c) env \<Rightarrow> string \<Rightarrow> string \<Rightarrow> ('f, 'c) state \<Rightarrow> ('f, 'c) outcome"
where
  "split_audio_fresh env name dst st =
     (let outd = store_dir (out st) dst [];
          segs = (case map_of outd name of Some (Wav w) \<Rightarrow> ffmpeg_segment env w | _ \<Rightarrow> []);
          d = write_segments segs
      in case split_audio_dst (mfcc env) (listdir_rank env) d of
           (err, d') \<Rightarrow> (err, st\<lparr>out := store_dir outd dst d'\<rparr>))"

text \<open>
  Lines 126-154 for one entry \<open>name\<close> of the output directory. \<^verbatim>\<open>shutil.rmtree\<close> raises
  NotADirectoryError when the destination is a plain file.
\<close>

definition split_audio_entry :: "('f, 'c) env \<Rightarrow> opt \<Rightarrow> string \<Rightarrow> ('f, 'c) state \<Rightarrow> ('f, 'c) outcome" where
  "split_audio_entry env opt name st =
     (let audio = output_dir opt @ ''/'' @ name;
          dst = video_id audio
      in if path_exists (out st) dst \<and> lookup_dir (out st) dst = None
         then (Some NotADirectoryError, st)
         else split_audio_fresh env name dst st)"

definition split_audio :: "('f, 'c) env \<Rightarrow> opt \<Rightarrow> ('f, 'c) state \<Rightarrow> ('f, 'c) outcome" where
  "split_audio env opt st =
     (let st = print ''splitting audios...'' st;
          st = print (''output directory: '' @ output_dir opt) st
      in for_each (split_audio_entry env opt)
           (os_listdir (listdir_rank env) (map fst (out st))) st)"

section \<open>extract\_image\_feats\<close>

text \<open>Line 21: the module's globals \<^verbatim>\<open>C, H, W = 3, 224, 224\<close>.\<close>

definition module_CHW :: "nat \<times> nat \<times> nat" where
  "module_CHW = (3, 224, 224)"

text \<open>
  \<open>extract_frame\<close> (lines 23-34): ffmpeg writes the frames as \<^verbatim>\<open>000001.jpg\<close>,
  \<^verbatim>\<open>000002.jpg\<close>, ... into \<^verbatim>\<open>dst\<close>, replacing files of these names; it stops where it
  cannot write (no directory \<^verbatim>\<open>dst\<close>, or a directory in place of a frame file). Its exit
  status is ignored.
\<close>

fun write_frames :: "nat \<Rightarrow> 'f list \<Rightarrow> ('f, 'c) dir \<Rightarrow> ('f, 'c) dir" where
  "write_frames k [] d = d"
| "write_frames k (f # fs) d =
     (case map_of d (zero_padded 6 k @ ''.jpg'') of
        Some (Dir _) \<Rightarrow> d
      | _ \<Rightarrow> write_frames (Suc k) fs (AList.update (zero_padded 6 k @ ''.jpg'') (Jpg f) d))"

definition extract_frame :: "('f, 'c) env \<Rightarrow> string \<Rightarrow> string \<Rightarrow> ('f, 'c) dir \<Rightarrow> ('f, 'c) dir" where
  "extract_frame env video dst outd =
     (case lookup_dir outd dst of
        None \<Rightarrow> outd
      | Some d \<Rightarrow> store_dir outd dst (write_frames 1 (ffmpeg_frames env video) d))"

text \<open>Line 63: \<^verbatim>\<open>sorted(glob.glob(os.path.join(dst, '*.jpg')))\<close>, as names within \<^verbatim>\<open>dst\<close>.\<close>

definition list_frames :: "(string \<Rightarrow> nat) \<Rightarrow> ('f, 'c) dir \<Rightarrow> string \<Rightarrow> string list" where
  "list_frames rank outd dst =
     (case lookup_dir outd dst of
        None \<Rightarrow> []
      | Some d \<Rightarrow> sort (glob_ext rank ''.jpg'' (map fst d)))"

text \<open>
  \<^verbatim>\<open>load_image_fn(path)\<close>, with \<^verbatim>\<open>load_image_fn = utils.LoadTransformImage(model)\<close>: the
  frame in the file, at the model's input size.
\<close>

definition load_image_fn :: "encoder_model \<Rightarrow> ('f, 'c) dir \<Rightarrow> string \<Rightarrow> py_error + 'f image" where
  "load_image_fn m d name =
     (case map_of d name of
        Some (Jpg f) \<Rightarrow> Inr (Image (input_size m) f)
      | Some (Dir _) \<Rightarrow> Inl IsADirectoryError
      | _ \<Rightarrow> Inl UnidentifiedImageError)"

text \<open>Line 67: \<^verbatim>\<open>torch.zeros((len(image_list), C, H, W))\<close>.\<close>

definition torch_zeros :: "nat \<Rightarrow> nat \<times> nat \<times> nat \<Rightarrow> 'f tensor" where
  "torch_zeros n chw = (case chw of (C, H, W) \<Rightarrow> Tensor [n, C, H, W] (replicate n None))"

text \<open>
  Line 70: \<^verbatim>\<open>images[i] = img\<close>. torch copies the image into the slot when the image's
  shape expands to the slot's (equal sizes, or size 1, from the last axis on) and
  raises RuntimeError otherwise.
\<close>

fun expands_to :: "nat list \<Rightarrow> nat list \<Rightarrow> bool" where
  "expands_to [] slot = True"
| "expands_to (a # as) [] = False"
| "expands_to (a # as) (b # bs) = ((a = b \<or> a = 1) \<and> expands_to as bs)"

definition setitem :: "'f tensor \<Rightarrow> nat \<Rightarrow> 'f image \<Rightarrow> py_error + 'f tensor" where
  "setitem images i img =
     (if expands_to (rev (ishape img)) (rev (tl (shape images)))
      then Inr (Tensor (shape images) ((payload images)[i := Some (pixels img)]))
      else Inl RuntimeError)"

text \<open>Lines 68-70: the loop that loads the sampled frames into the batch.\<close>

fun load_images ::
  "encoder_model \<Rightarrow> ('f, 'c) dir \<Rightarrow> 'f tensor \<Rightarrow> nat \<Rightarrow> string list \<Rightarrow> py_error + 'f tensor"
where
  "load_images m d images i [] = Inr images"
| "load_images m d images i (name # names) =
     (case load_image_fn m d name of
        Inl e \<Rightarrow> Inl e
      | Inr img \<Rightarrow>
          (case setitem images i img of
             Inl e \<Rightarrow> Inl e
           | Inr images' \<Rightarrow> load_images m d images' (Suc i) names))"

text \<open>\<^verbatim>\<open>t.squeeze()\<close>: every axis of size 1 is dropped.\<close>

definition squeeze :: "'f tensor \<Rightarrow> 'f tensor" where
  "squeeze t = Tensor (filter (\<lambda>n. n \<noteq> 1) (shape t)) (payload t)"

text \<open>
  Lines 63-73: from the frame files of \<^verbatim>\<open>dst\<close> to the tensor that is passed to the
  model, \<^verbatim>\<open>images.cuda().squeeze()\<close>.
\<close>

definition encoder_input ::
  "nat \<times> nat \<times> nat \<Rightarrow> encoder_model \<Rightarrow> int \<Rightarrow> ('f, 'c) dir \<Rightarrow> string list \<Rightarrow> py_error + 'f tensor"
where
  "encoder_input chw m n d image_list =
     (case sample_image_list image_list n of
        Inl e \<Rightarrow> Inl e
      | Inr image_list' \<Rightarrow>
          (case load_images m d (torch_zeros (length image_list') chw) 0 image_list' of
             Inl e \<Rightarrow> Inl e
           | Inr images \<Rightarrow> Inr (squeeze images)))"

text \<open>Lines 63-74: the features of one video, \<^verbatim>\<open>image_feats\<close>.\<close>

definition image_feats ::
  "('f, 'c) env \<Rightarrow> nat \<times> nat \<times> nat \<Rightarrow> encoder_model \<Rightarrow> int \<Rightarrow> ('f, 'c) dir \<Rightarrow> string \<Rightarrow>
     py_error + 'c array2"
where
  "image_feats env chw m n outd dst =
     (let d = (case lookup_dir outd dst of None \<Rightarrow> [] | Some d \<Rightarrow> d)
      in case encoder_input chw m n d (list_frames (listdir_rank env) outd dst) of
           Inl e \<Rightarrow> Inl e
         | Inr batch \<Rightarrow> encoder env m batch)"

text \<open>Lines 75-79: \<^verbatim>\<open>video.npy\<close> is saved, then the frame files are removed.\<close>

definition save_and_clean ::
  "(string \<Rightarrow> nat) \<Rightarrow> 'c array2 \<Rightarrow> ('f, 'c) dir \<Rightarrow> string \<Rightarrow> py_error option \<times> ('f, 'c) dir"
where
  "save_and_clean rank feats outd dst =
     (case lookup_dir outd dst of
        None \<Rightarrow> (Some NotADirectoryError, outd)
      | Some d \<Rightarrow>
          (case np_save ''video.npy'' feats d of
             Inl e \<Rightarrow> (Some e, outd)
           | Inr d' \<Rightarrow>
               (case remove_ending rank ''.jpg'' d' of
                  (err, d'') \<Rightarrow> (err, store_dir outd dst d''))))"

text \<open>
  Whether a \<^verbatim>\<open>video.npy\<close> is somewhere in the output directory: in one of its
  directories, or (for an empty video identifier) in the output directory itself.
\<close>

definition names_video_npy :: "string \<times> ('f, 'c) node \<Rightarrow> bool" where
  "names_video_npy entry =
     (fst entry = ''video.npy'' \<or>
      (case snd entry of
         Dir d \<Rightarrow> list_ex (\<lambda>e. fst e = ''video.npy'') d
       | _ \<Rightarrow> False))"

definition has_video_npy :: "('f, 'c) dir \<Rightarrow> bool" where
  "has_video_npy outd = list_ex names_video_npy outd"

text \<open>
  Lines 57-62: the destination is made when it is not there (with the message that the
  video has no audio), and the frames are extracted into it.
\<close>

definition prepare_dst :: "('f, 'c) env \<Rightarrow> string \<Rightarrow> ('f, 'c) state \<Rightarrow> ('f, 'c) state" where
  "prepare_dst env video st =
     (let dst = video_id video;
          st = (if \<not> path_exists (out st) dst
                then print (dst @ '' does not have audio information'')
                       (st\<lparr>out := AList.update dst (Dir []) (out st)\<rparr>)
                else st)
      in st\<lparr>out := extract_frame env video dst (out st)\<rparr>)"

text \<open>
  Lines 57-79, the body of the loop for one video. The globals \<open>C, H, W\<close> are the
  argument \<open>chw\<close>. Nothing is caught and nothing is released on the way out: an
  exception leaves the state as it was when it was raised.
\<close>

definition process_video ::
  "('f, 'c) env \<Rightarrow> opt \<Rightarrow> nat \<times> nat \<times> nat \<Rightarrow> encoder_model \<Rightarrow> string \<Rightarrow> ('f, 'c) state \<Rightarrow>
     ('f, 'c) outcome"
where
  "process_video env opt chw m video st =
     (let dst = video_id video;
          st = prepare_dst env video st
      in case image_feats env chw m (n_frame_steps opt) (out st) dst of
           Inl e \<Rightarrow> (Some e, st)
         | Inr feats \<Rightarrow>
             (case save_and_clean (listdir_rank env) feats (out st) dst of
                (err, outd) \<Rightarrow> (err, st\<lparr>out := outd\<rparr>)))"

text \<open>Lines 50-56: the videos are the \<^verbatim>\<open>*.mp4\<close> files of the video directory.\<close>

definition video_list :: "('f, 'c) env \<Rightarrow> opt \<Rightarrow> string list" where
  "video_list env opt =
     map (\<lambda>name. video_dir opt @ ''/'' @ name)
       (glob_ext (listdir_rank env) ''.mp4'' (video_files env))"

definition extract_image_feats ::
  "('f, 'c) env \<Rightarrow> opt \<Rightarrow> nat \<times> nat \<times> nat \<Rightarrow> encoder_model \<Rightarrow> ('f, 'c) state \<Rightarrow> ('f, 'c) outcome"
where
  "extract_image_feats env opt chw m st =
     (let st = print ''extracting video features...'' st;
          st = print (''save video features to '' @ output_dir opt) st
      in for_each (process_video env opt chw m) (video_list env opt) st)"

section \<open>main\<close>

text \<open>
  Lines 190-203. Each branch assigns \<open>C, H, W\<close> and \<open>model\<close>; \<open>main\<close> has no \<^verbatim>\<open>global\<close>
  statement, so these are local variables of \<open>main\<close>. The last branch assigns nothing.
\<close>

definition main_locals :: "string \<Rightarrow> ((nat \<times> nat \<times> nat) \<times> encoder_model) option" where
  "main_locals name =
     (if name = ''resnet152'' then Some ((3, 224, 224), Resnet152)
      else if name = ''inception_v3'' then Some ((3, 299, 299), InceptionV3)
      else if name = ''vgg16'' then Some ((3, 224, 224), Vgg16)
      else None)"

text \<open>
  Lines 180-187: \<open>vToA\<close>, \<open>split_audio\<close>, and the removal of the wav files that \<open>vToA\<close>
  wrote into the output directory.
\<close>

definition audio_stage :: "('f, 'c) env \<Rightarrow> opt \<Rightarrow> ('f, 'c) state \<Rightarrow> ('f, 'c) outcome" where
  "audio_stage env opt st =
     (case split_audio env opt (vToA env opt st) of
        (Some e, st) \<Rightarrow> (Some e, st)
      | (None, st) \<Rightarrow>
          (let st = print ''cleaning up original .wav files...'' st
           in case remove_ending (listdir_rank env) ''.wav'' (out st) of
                (err, outd) \<Rightarrow> (err, st\<lparr>out := outd\<rparr>)))"

text \<open>
  Lines 180-209. After the audio stage, the model is chosen. With an unknown name the
  message is printed and line 205 reads the unassigned local \<open>model\<close>, which raises
  UnboundLocalError. Otherwise \<open>extract_image_feats\<close> runs; it reads the module's
  globals \<open>C, H, W\<close>, which \<open>main\<close>'s local assignments have not changed.
\<close>

definition main :: "('f, 'c) env \<Rightarrow> opt \<Rightarrow> ('f, 'c) state \<Rightarrow> ('f, 'c) outcome" where
  "main env opt st =
     (case audio_stage env opt st of
        (Some e, st) \<Rightarrow> (Some e, st)
      | (None, st) \<Rightarrow>
          (case main_locals (model opt) of
             None \<Rightarrow> (Some UnboundLocalError, print ''The image model is not supported'' st)
           | Some (local_CHW, m) \<Rightarrow> extract_image_feats env opt module_CHW m st))"

section \<open>The claimed order of audio features\<close>

text \<open>
  Following the words of the specification, for comparison with \<open>audio_features\<close>: the
  coefficient matrices of the segments, taken in temporal order (segment 0 first),
  concatenated along the temporal axis and then transposed.
\<close>

fun concatenate_in_order ::
  "(int list \<Rightarrow> nat \<Rightarrow> 'c array2) \<Rightarrow> 'c array2 \<Rightarrow> wav list \<Rightarrow> py_error + 'c array2"
where
  "concatenate_in_order mfcc_fn output [] = Inr output"
| "concatenate_in_order mfcc_fn output (w # ws) =
     (case concatenate_axis1 output (segment_mfcc mfcc_fn w) of
        Inl e \<Rightarrow> Inl e
      | Inr output' \<Rightarrow> concatenate_in_order mfcc_fn output' ws)"

definition audio_features_temporal ::
  "(int list \<Rightarrow> nat \<Rightarrow> 'c array2) \<Rightarrow> wav list \<Rightarrow> py_error + 'c array2"
where
  "audio_features_temporal mfcc_fn segs =
     (case concatenate_in_order mfcc_fn (zeros_r0 20) segs of
        Inl e \<Rightarrow> Inl e
      | Inr output \<Rightarrow> Inr (transpose_T output))"

section \<open>Example environments\<close>

text \<open>
  Small stand-ins for the external collaborators, for evaluating the model on concrete
  inputs. \<open>probe_mfcc\<close> returns a 20 x 1 matrix filled with the first sample of its
  input, so the result shows which segment a column came from. \<open>probe_encoder\<close> accepts
  a batch (a tensor with four axes) and returns one row per image, holding the frame;
  any other tensor it rejects.
\<close>

definition probe_mfcc :: "int list \<Rightarrow> nat \<Rightarrow> int array2" where
  "probe_mfcc xs sr = Array2 20 1 (replicate 20 [hd xs])"

definition probe_encoder :: "encoder_model \<Rightarrow> nat tensor \<Rightarrow> py_error + int array2" where
  "probe_encoder m t =
     (if length (shape t) = 4
      then Inr (Array2 (hd (shape t)) 1
                 (map (\<lambda>p. [case p of Some f \<Rightarrow> int f | None \<Rightarrow> 0]) (payload t)))
      else Inl EncoderError)"

text \<open>A directory listing that reports \<^verbatim>\<open>01.wav\<close> before \<^verbatim>\<open>00.wav\<close>.\<close>

definition later_first :: "string \<Rightarrow> nat" where
  "later_first name = (if name = ''00.wav'' then 1 else 0)"

text \<open>
  A video directory \<^verbatim>\<open>vids\<close> with two silent videos: \<^verbatim>\<open>a.mp4\<close> has the three frames 10,
  20, 30 and \<^verbatim>\<open>b.mp4\<close> the single frame 7. Directory listings keep the order in which
  the names were written.
\<close>

definition silent_env :: "(nat, int) env" where
  "silent_env =
     \<lparr>listdir_rank = (\<lambda>name. 0),
      video_files = [''a.mp4'', ''b.mp4''],
      ffmpeg_frames =
        (\<lambda>video. if video = ''vids/a.mp4'' then [10, 20, 30]
                else if video = ''vids/b.mp4'' then [7] else []),
      ffmpeg_audio = (\<lambda>video bw ch fr. None),
      ffmpeg_segment = (\<lambda>w. []),
      mfcc = probe_mfcc,
      encoder = probe_encoder\<rparr>"

definition demo_opt :: opt where
  "demo_opt =
     \<lparr>video_dir = ''vids'', output_dir = ''out'', output_channels = 1,
      output_frequency = 16000, band_width = 160, model = ''resnet152'', gpu = ''0'',
      n_frame_steps = 2\<rparr>"

definition empty_state :: "(nat, int) state" where
  "empty_state = \<lparr>out = [], stdout = []\<rparr>"

section \<open>Properties of the frame sampler\<close>


lemma py_int_of_int [simp]: "py_int (rat_of_int k) = k"
  by (simp add: py_int_def)

lemma py_int_np_round:
  "py_int (np_round x) =
     (if x - rat_of_int \<lfloor>x\<rfloor> < 1 / 2 then \<lfloor>x\<rfloor>
      else if 1 / 2 < x - rat_of_int \<lfloor>x\<rfloor> then \<lfloor>x\<rfloor> + 1
      else if even \<lfloor>x\<rfloor> then \<lfloor>x\<rfloor> else \<lfloor>x\<rfloor> + 1)"
  unfolding np_round_def Let_def py_int_of_int by (rule refl)

lemma np_round_bounds:
  "rat_of_int (py_int (np_round x)) \<le> x + 1 / 2 \<and> x - 1 / 2 \<le> rat_of_int (py_int (np_round x))"
proof -
  have "rat_of_int \<lfloor>x\<rfloor> \<le> x" and "x < rat_of_int \<lfloor>x\<rfloor> + 1"
    by linarith+
  then show ?thesis
    unfolding py_int_np_round by (simp split: if_splits) linarith
qed

lemma np_round_of_int [simp]: "np_round (rat_of_int k) = rat_of_int k"
  by (simp add: np_round_def)


lemma map_upt_update_last:
  "g (m - 1) = v \<Longrightarrow> (map g [0..<m])[m - 1 := v] = map g [0..<m]"
  by (rule nth_equalityI) (auto simp: nth_list_update)

lemma linspace_positions:
  assumes "1 \<le> n"
  shows "linspace 0 stop n =
           Inr (map (\<lambda>i. rat_of_nat i * stop / rat_of_int (n - 1)) [0..<nat n])"
proof (cases "n = 1")
  case True
  then show ?thesis by (simp add: linspace_def)
next
  case False
  with assms have n: "1 < n" by simp
  then have last: "rat_of_nat (nat n - 1) = rat_of_int (n - 1)"
    by (simp add: of_nat_diff)
  from n have nz: "rat_of_int (n - 1) \<noteq> 0" by simp
  have a: "(map (\<lambda>i. rat_of_nat i * stop / rat_of_int (n - 1)) [0..<nat n])[nat n - 1 := stop]
            = map (\<lambda>i. rat_of_nat i * stop / rat_of_int (n - 1)) [0..<nat n]"
    by (rule map_upt_update_last) (use last nz in simp)
  show ?thesis
  proof (cases "stop = 0")
    case True
    with n show ?thesis by (simp add: linspace_def Let_def comp_def map_replicate_const list_update_same_conv)
  next
    case False
    with n nz a show ?thesis
      by (simp add: linspace_def Let_def comp_def)
  qed
qed








section \<open>Video identifiers\<close>

lemma split_nonempty [simp]: "split sep s \<noteq> []"
  by (induction s) (auto split: list.splits)

lemma hd_split: "hd (split sep s) = takeWhile (\<lambda>c. c \<noteq> sep) s"
  by (induction s) (auto split: list.splits)





lemma video_id_no_dot: "CHR ''.'' \<notin> set (video_id video)"
  unfolding video_id_def hd_split by (auto dest: set_takeWhileD)




section \<open>Audio segments\<close>

lemma length_pad_or_truncate: "length (pad_or_truncate xs) = 16000"
  by (simp add: pad_or_truncate_def Let_def)

text \<open>
  Claim C3 at a sample rate of 8000 Hz. A full one-second segment has 8000 samples; the
  code pads it with 8000 zeros and hands 16000 samples to the transform, together with
  the rate 8000.
\<close>

theorem segment_at_8000_Hz_is_padded:
  "segment_mfcc mfcc_fn (WavData 8000 (replicate 8000 s)) =
     mfcc_fn (replicate 8000 s @ replicate 8000 0) 8000 \<and>
   length (pad_or_truncate (replicate 8000 s)) = 16000"
  by (simp add: segment_mfcc_def pad_or_truncate_def)

lemma zero_padded_2_0: "zero_padded 2 0 = ''00''"
  by code_simp

lemma zero_padded_2_1: "zero_padded 2 (Suc 0) = ''01''"
  by code_simp

lemma write_segments_two:
  "write_segments [a, b] = [(''00.wav'', Wav a), (''01.wav'', Wav b)]"
  by (simp add: write_segments_def zero_padded_2_0 zero_padded_2_1)

lemma map2_replicate: "map2 f (replicate n a) (replicate n b) = replicate n (f a b)"
  by (induction n) auto

lemma probe_mfcc_segment:
  "segment_mfcc probe_mfcc (WavData r (x # xs)) = Array2 20 (Suc 0) (replicate 20 [x])"
  by (simp add: segment_mfcc_def probe_mfcc_def pad_or_truncate_def Let_def)

lemma concatenate_replicate:
  "concatenate_axis1 (Array2 r k (replicate r xs)) (Array2 r j (replicate r ys)) =
     Inr (Array2 r (k + j) (replicate r (xs @ ys)))"
  by (simp add: concatenate_axis1_def map2_replicate)

lemma transpose_replicate:
  "transpose_T (Array2 r c (replicate r row)) =
     Array2 c r (map (\<lambda>j. replicate r (row ! j)) [0..<c])"
  by (simp add: transpose_T_def)

text \<open>
  Claim C4 on a track of two segments whose files the directory lists as \<^verbatim>\<open>01.wav\<close>,
  \<^verbatim>\<open>00.wav\<close>: the saved features start with segment 1, where the claimed order starts
  with segment 0.
\<close>

theorem audio_features_follow_listing_order:
  "audio_features probe_mfcc later_first (write_segments [WavData 16000 [1], WavData 16000 [2]]) =
     Inr (Array2 2 20 [replicate 20 2, replicate 20 1]) \<and>
   audio_features_temporal probe_mfcc [WavData 16000 [1], WavData 16000 [2]] =
     Inr (Array2 2 20 [replicate 20 1, replicate 20 2])"
proof -
  have listing: "os_listdir later_first [''00.wav'', ''01.wav''] = [''01.wav'', ''00.wav'']"
    by (simp add: os_listdir_def later_first_def)
  show ?thesis
    by (simp add: audio_features_def audio_features_temporal_def write_segments_two listing
        probe_mfcc_segment zeros_r0_def concatenate_replicate transpose_replicate)
qed

section \<open>File names of segments and frames\<close>














section \<open>Removing files by their ending\<close>






section \<open>Shape of the audio features\<close>














section \<open>The batch of images\<close>

lemma load_images_shape:
  "load_images m d images i names = Inr images' \<Longrightarrow> shape images' = shape images"
proof (induction names arbitrary: images i)
  case Nil
  then show ?case by simp
next
  case (Cons name names)
  from Cons.prems obtain img images1 where
    "setitem images i img = Inr images1" and rest: "load_images m d images1 (Suc i) names = Inr images'"
    by (auto split: sum.splits)
  then have "shape images1 = shape images"
    by (auto simp: setitem_def split: if_splits)
  with Cons.IH [OF rest] show ?case by simp
qed

lemma sample_one_frame:
  assumes "sample_image_list image_list 1 = Inr image_list'"
  shows "length image_list' = 1"
proof -
  have "frame_samples (length image_list) 1 = Inr [0]"
    by (simp add: frame_samples_def linspace_def np_round_def)
  with assms show ?thesis
    by (auto simp: sample_image_list_def select_frames_def split: sum.splits)
qed

text \<open>
  Claim C2 at \<^verbatim>\<open>n_frame_steps = 1\<close>. Whatever the video, when the batch of the single
  sampled frame has been loaded, \<^verbatim>\<open>squeeze()\<close> drops its first axis: the tensor passed
  to the model has the shape \<^verbatim>\<open>[3, 224, 224]\<close> of one image, not the shape
  \<^verbatim>\<open>[1, 3, 224, 224]\<close> of a batch with one row.
\<close>

theorem one_frame_step_loses_batch_axis:
  "encoder_input module_CHW m 1 d image_list = Inr batch \<longrightarrow> shape batch = [3, 224, 224]"
proof
  assume a: "encoder_input module_CHW m 1 d image_list = Inr batch"
  then obtain image_list' images where
    s: "sample_image_list image_list 1 = Inr image_list'"
    and l: "load_images m d (torch_zeros (length image_list') module_CHW) 0 image_list' = Inr images"
    and b: "batch = squeeze images"
    by (auto simp: encoder_input_def split: sum.splits)
  from s have "length image_list' = 1" by (rule sample_one_frame)
  with load_images_shape [OF l] have "shape images = [1, 3, 224, 224]"
    by (simp add: torch_zeros_def module_CHW_def)
  with b show "shape batch = [3, 224, 224]"
    by (simp add: squeeze_def)
qed

lemma zero_padded_6_1: "zero_padded 6 (Suc 0) = ''000001''"
  by code_simp

text \<open>
  One frame file, one frame step, resnet152: the tensor passed to the model is the image
  itself.
\<close>

theorem one_frame_step_loses_batch_axis_witness:
  "encoder_input module_CHW Resnet152 1 [(''000001.jpg'', Jpg (10 :: nat))] [''000001.jpg''] =
     Inr (Tensor [3, 224, 224] [Some 10]) \<and>
   shape (Tensor [3, 224, 224] [Some (10 :: nat)]) = [3, 224, 224]"
proof -
  have e: "encoder_input module_CHW Resnet152 1 [(''000001.jpg'', Jpg (10 :: nat))] [''000001.jpg''] =
     Inr (Tensor [3, 224, 224] [Some 10])"
    by code_simp
  with one_frame_step_loses_batch_axis
    [of Resnet152 "[(''000001.jpg'', Jpg (10 :: nat))]" "[''000001.jpg'']" "Tensor [3, 224, 224] [Some 10]"]
  show ?thesis by simp
qed

section \<open>The resolution of the batch\<close>

lemma main_after_audio_stage:
  "main env opt st =
     (case audio_stage env opt st of
        (Some e, st') \<Rightarrow> (Some e, st')
      | (None, st') \<Rightarrow>
          (case main_locals (model opt) of
             None \<Rightarrow> (Some UnboundLocalError, print ''The image model is not supported'' st')
           | Some (local_CHW, m) \<Rightarrow> extract_image_feats env opt module_CHW m st'))"
  by (simp add: main_def)

text \<open>
  Claim C8 at \<^verbatim>\<open>--model inception_v3\<close>. \<open>main\<close> assigns 299 to its own \<open>H\<close> and \<open>W\<close>, but
  the batch is made from the module's \<open>H\<close> and \<open>W\<close>, at 224 x 224; the first image
  loaded at inception's size 299 x 299 does not fit its slot, and the run on the two
  example videos stops there with RuntimeError, before any features are saved.
\<close>

theorem inception_batch_is_224:
  "main_locals ''inception_v3'' = Some ((3, 299, 299), InceptionV3) \<and>
   shape (torch_zeros n module_CHW) = [n, 3, 224, 224] \<and>
   setitem (torch_zeros (Suc n) module_CHW) 0 (Image (input_size InceptionV3) f) = Inl RuntimeError \<and>
   main silent_env (demo_opt\<lparr>model := ''inception_v3''\<rparr>) empty_state =
     (Some RuntimeError,
      \<lparr>out = [(''a'', Dir [(''000001.jpg'', Jpg 10), (''000002.jpg'', Jpg 20),
                            (''000003.jpg'', Jpg 30)])],
       stdout = ['' cleanup: out/'', ''splitting audios...'', ''output directory: out'',
          ''cleaning up original .wav files...'', ''extracting video features...'',
          ''save video features to out'', ''a does not have audio information'']\<rparr>)"
proof -
  have "main silent_env (demo_opt\<lparr>model := ''inception_v3''\<rparr>) empty_state =
     (Some RuntimeError,
      \<lparr>out = [(''a'', Dir [(''000001.jpg'', Jpg 10), (''000002.jpg'', Jpg 20),
                            (''000003.jpg'', Jpg 30)])],
       stdout = ['' cleanup: out/'', ''splitting audios...'', ''output directory: out'',
          ''cleaning up original .wav files...'', ''extracting video features...'',
          ''save video features to out'', ''a does not have audio information'']\<rparr>)"
    by code_simp
  then show ?thesis
    by (simp add: main_locals_def torch_zeros_def module_CHW_def setitem_def)
qed

section \<open>A video without frames\<close>

lemma getitem_Nil: "getitem [] i = Inl IndexError"
  by (simp add: getitem_def)

lemma sample_no_frames:
  assumes "1 \<le> n"
  shows "sample_image_list [] n = Inl IndexError"
proof -
  from linspace_positions [OF assms, of "rat_of_int (int (length []) - 1)"]
  obtain positions where p: "linspace 0 (rat_of_int (int (length []) - 1)) n = Inr positions"
    and len: "length positions = nat n"
    by simp
  from len assms obtain s ss where "positions = s # ss"
    by (cases positions) auto
  with p show ?thesis
    by (simp add: sample_image_list_def frame_samples_def select_frames_def getitem_Nil)
qed

text \<open>
  Claim C5, as the code has it. When no frame file is found for a video (L = 0) and
  \<open>n_frame_steps\<close> is at least 1, line 66 raises IndexError. Nothing catches it: the
  loop over the videos ends there, with the state as the extraction left it, and the
  remaining videos are not processed.
\<close>

theorem zero_frames_stop_the_run:
  assumes "list_frames (listdir_rank env) (out (prepare_dst env video st)) (video_id video) = []"
    and "1 \<le> n_frame_steps opt"
  shows "process_video env opt chw m video st = (Some IndexError, prepare_dst env video st) \<and>
         for_each (process_video env opt chw m) (video # remaining) st =
           (Some IndexError, prepare_dst env video st)"
proof -
  have "image_feats env chw m (n_frame_steps opt) (out (prepare_dst env video st)) (video_id video) =
          Inl IndexError"
    using assms by (simp add: image_feats_def encoder_input_def sample_no_frames)
  then have "process_video env opt chw m video st = (Some IndexError, prepare_dst env video st)"
    by (simp add: process_video_def Let_def)
  then show ?thesis by simp
qed

text \<open>
  The example directory with a first video that decodes to no frame: the run stops at
  it, and \<^verbatim>\<open>b.mp4\<close> is not processed.
\<close>

theorem zero_frames_stop_the_run_witness:
  "list_frames (listdir_rank (silent_env\<lparr>ffmpeg_frames := (\<lambda>video. [])\<rparr>))
     (out (prepare_dst (silent_env\<lparr>ffmpeg_frames := (\<lambda>video. [])\<rparr>) ''vids/a.mp4'' empty_state))
     (video_id ''vids/a.mp4'') = [] \<and>
   1 \<le> n_frame_steps demo_opt \<and>
   for_each (process_video (silent_env\<lparr>ffmpeg_frames := (\<lambda>video. [])\<rparr>) demo_opt module_CHW Resnet152)
     [''vids/a.mp4'', ''vids/b.mp4''] empty_state =
     (Some IndexError,
      prepare_dst (silent_env\<lparr>ffmpeg_frames := (\<lambda>video. [])\<rparr>) ''vids/a.mp4'' empty_state)"
proof -
  have h1: "list_frames (listdir_rank (silent_env\<lparr>ffmpeg_frames := (\<lambda>video. [])\<rparr>))
     (out (prepare_dst (silent_env\<lparr>ffmpeg_frames := (\<lambda>video. [])\<rparr>) ''vids/a.mp4'' empty_state))
     (video_id ''vids/a.mp4'') = []"
    by code_simp
  have h2: "1 \<le> n_frame_steps demo_opt"
    by (simp add: demo_opt_def)
  from zero_frames_stop_the_run [OF h1 h2, of module_CHW Resnet152 "[''vids/b.mp4'']"] h1 h2
  show ?thesis by simp
qed

text \<open>
  Claim C5 as stated fails on the example directory when \<^verbatim>\<open>a.mp4\<close> decodes to no frame
  and \<^verbatim>\<open>b.mp4\<close> to one: \<open>main\<close> ends with IndexError after \<^verbatim>\<open>a.mp4\<close>, and nothing is made
  for \<^verbatim>\<open>b.mp4\<close>.
\<close>

theorem zero_frames_abort_counterexample:
  "main (silent_env\<lparr>ffmpeg_frames := (\<lambda>video. if video = ''vids/b.mp4'' then [7] else [])\<rparr>)
     demo_opt empty_state =
     (Some IndexError,
      \<lparr>out = [(''a'', Dir [])],
       stdout = ['' cleanup: out/'', ''splitting audios...'', ''output directory: out'',
          ''cleaning up original .wav files...'', ''extracting video features...'',
          ''save video features to out'', ''a does not have audio information'']\<rparr>)"
  by code_simp


section \<open>Transient files\<close>








section \<open>No image features before the model is chosen\<close>

lemma no_video_npy_iff:
  "\<not> has_video_npy outd \<longleftrightarrow> (\<forall>e \<in> set outd. \<not> names_video_npy e)"
  by (simp add: has_video_npy_def list_ex_iff)

lemma no_video_npy_subset:
  "\<not> has_video_npy outd \<Longrightarrow> set outd' \<subseteq> set outd \<Longrightarrow> \<not> has_video_npy outd'"
  by (auto simp: no_video_npy_iff)

lemma set_update_cases:
  "e \<in> set (AList.update k v al) \<Longrightarrow> e = (k, v) \<or> e \<in> set al"
  by (induction al) (auto split: if_splits)

lemma no_video_npy_update:
  assumes "\<not> has_video_npy outd" and "\<not> names_video_npy (k, v)"
  shows "\<not> has_video_npy (AList.update k v outd)"
  using assms by (auto simp: no_video_npy_iff dest: set_update_cases)

lemma set_remove_files: "set (snd (remove_files ext fs d)) \<subseteq> set d"
proof (induction fs arbitrary: d)
  case Nil
  then show ?case by simp
next
  case (Cons f fs)
  have "set (snd (remove_files ext fs (AList.delete f d))) \<subseteq> set d"
    using Cons.IH [of "AList.delete f d"] by (auto simp: AList.delete_eq)
  with Cons.IH [of d] show ?case
    by (auto split: option.splits node.splits)
qed

lemma set_remove_ending: "set (snd (remove_ending rank ext d)) \<subseteq> set d"
  unfolding remove_ending_def by (rule set_remove_files)

lemma wav_name_not_video_npy: "s @ ''.wav'' \<noteq> ''video.npy''"
proof
  assume "s @ ''.wav'' = ''video.npy''"
  then have "last (s @ ''.wav'') = last ''video.npy''" by simp
  then show False by simp
qed

lemma vToA_video_no_video_npy:
  assumes "\<not> has_video_npy (out st)"
  shows "\<not> has_video_npy (out (vToA_video env opt name st))"
proof -
  have "\<not> names_video_npy (s @ ''.wav'', Wav w)" for s and w
    by (simp add: names_video_npy_def wav_name_not_video_npy)
  then have "\<not> has_video_npy (AList.update (s @ ''.wav'') (Wav w) (out st))" for s and w
    by (rule no_video_npy_update [OF assms])
  with assms show ?thesis
    by (simp add: vToA_video_def Let_def split: option.splits)
qed

lemma fold_vToA_video_no_video_npy:
  "\<not> has_video_npy (out st) \<Longrightarrow> \<not> has_video_npy (out (fold (vToA_video env opt) names st))"
  by (induction names arbitrary: st) (simp_all add: vToA_video_no_video_npy)

lemma vToA_no_video_npy: "\<not> has_video_npy (out (vToA env opt st))"
  unfolding vToA_def Let_def
  by (rule fold_vToA_video_no_video_npy) (simp add: has_video_npy_def)


lemma segment_entry_plain:
  fixes e :: "string \<times> ('f, 'c) node"
  assumes "e \<in> set (write_segments segs)"
  shows "\<not> names_video_npy e"
proof -
  from assms obtain k w where e: "e = (zero_padded 2 k @ ''.wav'', Wav w)"
    by (auto simp: write_segments_def)
  show ?thesis
    unfolding e by (simp add: names_video_npy_def wav_name_not_video_npy)
qed

lemma split_audio_dst_entries:
  fixes e :: "string \<times> ('f, 'c) node"
  assumes "e \<in> set (snd (split_audio_dst mfcc_fn rank (write_segments segs)))"
  shows "\<not> names_video_npy e"
proof -
  let ?d = "write_segments segs :: ('f, 'c) dir"
  have "e \<in> set ?d \<or> (\<exists>feats. e = (''audio.npy'', Npy feats))"
  proof (cases "audio_features mfcc_fn rank ?d")
    case (Inl err)
    with assms show ?thesis by (simp add: split_audio_dst_def)
  next
    case (Inr feats)
    show ?thesis
    proof (cases "np_save ''audio.npy'' feats ?d")
      case (Inl err)
      with Inr assms show ?thesis by (simp add: split_audio_dst_def)
    next
      case saved: (Inr d1)
      then have d1: "d1 = AList.update ''audio.npy'' (Npy feats) ?d"
        by (auto simp: np_save_def split: option.splits node.splits)
      from Inr saved assms have "e \<in> set (snd (remove_ending rank ''.wav'' d1))"
        by (simp add: split_audio_dst_def)
      with set_remove_ending have "e \<in> set d1" by blast
      then show ?thesis
        unfolding d1 by (auto dest: set_update_cases)
    qed
  qed
  then show ?thesis
    by (auto simp: segment_entry_plain) (simp add: names_video_npy_def)
qed

lemma split_audio_fresh_no_video_npy:
  fixes st :: "('f, 'c) state"
  assumes "\<not> has_video_npy (out st)" and "CHR ''.'' \<notin> set dst"
  shows "\<not> has_video_npy (out (snd (split_audio_fresh env name dst st)))"
proof -
  define segs where
    "segs = (case map_of (store_dir (out st) dst []) name of
               Some (Wav w) \<Rightarrow> ffmpeg_segment env w | _ \<Rightarrow> [])"
  define d' :: "('f, 'c) dir"
    where "d' = snd (split_audio_dst (mfcc env) (listdir_rank env) (write_segments segs))"
  have out: "out (snd (split_audio_fresh env name dst st)) =
               store_dir (store_dir (out st) dst []) dst d'"
    by (simp add: split_audio_fresh_def Let_def segs_def d'_def split: prod.splits)
  have plain: "\<not> names_video_npy e" if "e \<in> set d'" for e
    using that unfolding d'_def by (rule split_audio_dst_entries)
  then have inner: "\<not> has_video_npy d'"
    by (simp add: no_video_npy_iff)
  show ?thesis
  proof (cases "dst = []")
    case True
    with inner show ?thesis unfolding out by (simp add: store_dir_def)
  next
    case False
    from assms(2) have name: "dst \<noteq> ''video.npy''" by auto
    have "\<not> list_ex (\<lambda>e. fst e = ''video.npy'') d'"
      using plain by (auto simp: list_ex_iff names_video_npy_def)
    with name have new: "\<not> names_video_npy (dst, Dir d')"
      by (simp add: names_video_npy_def)
    from name have "\<not> names_video_npy (dst, Dir [])"
      by (simp add: names_video_npy_def)
    with assms(1) have "\<not> has_video_npy (AList.update dst (Dir []) (out st))"
      by (rule no_video_npy_update)
    then have "\<not> has_video_npy (AList.update dst (Dir d') (AList.update dst (Dir []) (out st)))"
      using new by (rule no_video_npy_update)
    with False show ?thesis unfolding out by (simp add: store_dir_def)
  qed
qed

lemma split_audio_entry_no_video_npy:
  assumes "\<not> has_video_npy (out st)"
  shows "\<not> has_video_npy (out (snd (split_audio_entry env opt name st)))"
  using assms split_audio_fresh_no_video_npy [OF assms video_id_no_dot]
  by (simp add: split_audio_entry_def Let_def)

lemma for_each_invariant:
  assumes "\<And>x st. P st \<Longrightarrow> P (snd (body x st))" and "P st"
  shows "P (snd (for_each body xs st))"
  using assms(2)
proof (induction xs arbitrary: st)
  case Nil
  then show ?case by simp
next
  case (Cons x xs)
  from assms(1) [OF Cons.prems, of x] Cons.IH [of "snd (body x st)"]
  show ?case
    by (cases "body x st") (auto split: option.splits)
qed

lemma split_audio_no_video_npy:
  assumes "\<not> has_video_npy (out st)"
  shows "\<not> has_video_npy (out (snd (split_audio env opt st)))"
  unfolding split_audio_def Let_def
  by (rule for_each_invariant [where P = "\<lambda>st. \<not> has_video_npy (out st)"])
     (simp_all add: split_audio_entry_no_video_npy assms print_def)

lemma audio_stage_no_video_npy: "\<not> has_video_npy (out (snd (audio_stage env opt st)))"
proof -
  let ?r = "split_audio env opt (vToA env opt st)"
  have inv: "\<not> has_video_npy (out (snd ?r))"
    by (rule split_audio_no_video_npy) (rule vToA_no_video_npy)
  show ?thesis
  proof (cases "fst ?r")
    case None
    then have "out (snd (audio_stage env opt st)) =
        snd (remove_ending (listdir_rank env) ''.wav'' (out (snd ?r)))"
      by (cases ?r) (simp add: audio_stage_def Let_def print_def split: prod.splits)
    with inv set_remove_ending show ?thesis
      by (metis no_video_npy_subset)
  next
    case (Some e)
    then have "snd (audio_stage env opt st) = snd ?r"
      by (cases ?r) (simp add: audio_stage_def)
    with inv show ?thesis by simp
  qed
qed

text \<open>
  Claim C10. With a model name that is none of \<^verbatim>\<open>resnet152\<close>, \<^verbatim>\<open>inception_v3\<close>, \<^verbatim>\<open>vgg16\<close>,
  \<open>main\<close> always ends with an exception and no \<^verbatim>\<open>video.npy\<close> in the output directory.
  When the audio stage has completed, the last line printed is the message that the
  model is not supported, the exception is the UnboundLocalError of line 205, and the
  state is the one the audio stage left: no encoder is chosen and
  \<open>extract_image_feats\<close> does not run. (When the audio stage itself raises, \<open>main\<close> ends
  with that exception, before the model name is looked at.)
\<close>

theorem unsupported_model_stops_before_features:
  assumes "model opt \<notin> {''resnet152'', ''inception_v3'', ''vgg16''}"
  shows "\<exists>e st'. main env opt st = (Some e, st') \<and> \<not> has_video_npy (out st') \<and>
           (case audio_stage env opt st of
              (None, st1) \<Rightarrow>
                e = UnboundLocalError \<and> st' = print ''The image model is not supported'' st1
            | (Some e1, st1) \<Rightarrow> e = e1 \<and> st' = st1)"
proof -
  from assms have none: "main_locals (model opt) = None"
    by (simp add: main_locals_def)
  obtain r st1 where a: "audio_stage env opt st = (r, st1)"
    by (cases "audio_stage env opt st")
  with audio_stage_no_video_npy [of env opt st] have inv: "\<not> has_video_npy (out st1)"
    by simp
  show ?thesis
  proof (cases r)
    case None
    with a none inv show ?thesis
      by (simp add: main_def print_def)
  next
    case (Some e1)
    with a inv show ?thesis
      by (simp add: main_def)
  qed
qed

text \<open>
  The example directory, with audio in both videos (cut into no segment) and the model
  name \<^verbatim>\<open>alexnet\<close>: the audio features are there, the message is printed, and the run
  ends with UnboundLocalError.
\<close>

theorem unsupported_model_stops_before_features_witness:
  "model (demo_opt\<lparr>model := ''alexnet''\<rparr>) \<notin> {''resnet152'', ''inception_v3'', ''vgg16''} \<and>
   main (silent_env\<lparr>ffmpeg_audio := (\<lambda>video bw ch fr. Some (WavData 8 [1, 2, 3]))\<rparr>)
     (demo_opt\<lparr>model := ''alexnet''\<rparr>) empty_state =
     (Some UnboundLocalError,
      \<lparr>out = [(''a'', Dir [(''audio.npy'', Npy (Array2 0 20 []))]),
              (''b'', Dir [(''audio.npy'', Npy (Array2 0 20 []))])],
       stdout = ['' cleanup: out/'', ''splitting audios...'', ''output directory: out'',
          ''cleaning up original .wav files...'', ''The image model is not supported'']\<rparr>)"
proof -
  have h: "model (demo_opt\<lparr>model := ''alexnet''\<rparr>) \<notin> {''resnet152'', ''inception_v3'', ''vgg16''}"
    by simp
  have a: "audio_stage (silent_env\<lparr>ffmpeg_audio := (\<lambda>video bw ch fr. Some (WavData 8 [1, 2, 3]))\<rparr>)
     (demo_opt\<lparr>model := ''alexnet''\<rparr>) empty_state =
     (None,
      \<lparr>out = [(''a'', Dir [(''audio.npy'', Npy (Array2 0 20 []))]),
              (''b'', Dir [(''audio.npy'', Npy (Array2 0 20 []))])],
       stdout = ['' cleanup: out/'', ''splitting audios...'', ''output directory: out'',
          ''cleaning up original .wav files...'']\<rparr>)"
    by code_simp
  from unsupported_model_stops_before_features [OF h,
    of "silent_env\<lparr>ffmpeg_audio := (\<lambda>video bw ch fr. Some (WavData 8 [1, 2, 3]))\<rparr>" empty_state]
  show ?thesis
    unfolding a using h by (auto simp: print_def)
qed

end
